theory Spec2Isabelle
  imports Main "HOL-Library.Sublist" "HOL-Library.AList" "HOL-Library.Word"
begin

section \<open>Python values used by \<open>utils.py\<close>\<close>

text \<open>
  Exceptions are values.  Every \<^verbatim>\<open>raise\<close> of \<open>utils.py\<close> and every exception of the
  library calls it makes is a constructor of \<open>error\<close>; a computation that can raise
  returns \<open>error + 'a\<close> (\<open>Inl\<close> is the exception).
\<close>

datatype error =
    FileNotFoundError | NotADirectoryError | IsADirectoryError | FileExistsError
  | PermissionError | OSError
  | ValueError string | IndexError | KeyError | TypeError | AssertionError
  | UnicodeDecodeError | UnicodeEncodeError | BinasciiError
  | URLError | CalledProcessError | ModuleNotFoundError | ImportError
  | RecursionError | Exception string

type_synonym byte = "8 word"

subsection \<open>Strings\<close>

text \<open>\<^verbatim>\<open>s.split(c)\<close> for a one-character separator: never empty, \<open>''''\<close> gives \<open>['''']\<close>.\<close>

fun split_chr :: "char \<Rightarrow> string \<Rightarrow> string list" where
  "split_chr sep [] = [[]]"
| "split_chr sep (c # cs) =
     (if c = sep then [] # split_chr sep cs
      else (case split_chr sep cs of
              [] \<Rightarrow> [[c]]
            | piece # pieces \<Rightarrow> (c # piece) # pieces))"


text \<open>\<^verbatim>\<open>sep.join(pieces)\<close>.\<close>

fun join_str :: "string \<Rightarrow> string list \<Rightarrow> string" where
  "join_str sep [] = []"
| "join_str sep [p] = p"
| "join_str sep (p # q # ps) = p @ sep @ join_str sep (q # ps)"

text \<open>\<^verbatim>\<open>xs[i]\<close> for \<open>i \<ge> 0\<close>: raises \<open>IndexError\<close> out of range.\<close>

definition py_index :: "'a list \<Rightarrow> nat \<Rightarrow> error + 'a" where
  "py_index xs i = (if i < length xs then Inr (xs ! i) else Inl IndexError)"

text \<open>\<^verbatim>\<open>sub in s\<close> on strings is \<^const>\<open>sublist\<close> (a contiguous run of \<open>s\<close>).\<close>

abbreviation str_in :: "string \<Rightarrow> string \<Rightarrow> bool" where
  "str_in sub s \<equiv> sublist sub s"

subsection \<open>Regular expressions\<close>

text \<open>
  The two patterns of \<open>utils.py\<close> use literals, \<^verbatim>\<open>.\<close>, character classes, the
  quantifiers \<^verbatim>\<open>*\<close> and \<^verbatim>\<open>+\<close> on one character, the anchors \<^verbatim>\<open>^\<close> and \<^verbatim>\<open>$\<close>, and
  a top-level alternation.  A pattern is a list of alternatives, an alternative a
  sequence of items.  \<^verbatim>\<open>|\<close> binds weaker than sequencing, so an anchor belongs to
  the alternative it is written in.
\<close>

datatype atom = Lit char | Dot | Class string

datatype item = One atom | Star atom | Plus atom | Bol | Eol

type_synonym regex = "item list list"

definition newline :: char where
  "newline = CHR 0x0A"

fun atom_ok :: "atom \<Rightarrow> char \<Rightarrow> bool" where
  "atom_ok (Lit c) x = (x = c)"
| "atom_ok Dot x = (x \<noteq> newline)"
| "atom_ok (Class cs) x = (x \<in> set cs)"

text \<open>
  \<open>match_here items at_start s\<close>: some prefix of \<open>s\<close> matches the sequence; \<open>at_start\<close>
  says that \<open>s\<close> is the whole subject string (\<^verbatim>\<open>^\<close> matches only there, no MULTILINE
  flag is used).  \<^verbatim>\<open>$\<close> matches at the end and before a final newline.  The search
  backtracks, so greedy quantifiers change which match is found, not whether one is.
\<close>

fun match_here :: "item list \<Rightarrow> bool \<Rightarrow> string \<Rightarrow> bool" where
  "match_here [] st s = True"
| "match_here (Bol # is) st s = (st \<and> match_here is st s)"
| "match_here (Eol # is) st s = ((s = [] \<or> s = [newline]) \<and> match_here is st s)"
| "match_here (One a # is) st [] = False"
| "match_here (One a # is) st (c # cs) = (atom_ok a c \<and> match_here is False cs)"
| "match_here (Plus a # is) st [] = False"
| "match_here (Plus a # is) st (c # cs) = (atom_ok a c \<and> match_here (Star a # is) False cs)"
| "match_here (Star a # is) st [] = match_here is st []"
| "match_here (Star a # is) st (c # cs) =
     ((atom_ok a c \<and> match_here (Star a # is) False cs) \<or> match_here is st (c # cs))"

text \<open>\<^verbatim>\<open>re.search(r, s)\<close> finds a match, and \<^verbatim>\<open>re.findall(r, s)\<close> is a non-empty list,
  exactly when the pattern matches at some position of \<open>s\<close>.\<close>

fun search_from :: "regex \<Rightarrow> bool \<Rightarrow> string \<Rightarrow> bool" where
  "search_from r st [] = list_ex (\<lambda>alt. match_here alt st []) r"
| "search_from r st (c # cs) =
     (list_ex (\<lambda>alt. match_here alt st (c # cs)) r \<or> search_from r False cs)"

definition re_search :: "regex \<Rightarrow> string \<Rightarrow> bool" where
  "re_search r s = search_from r True s"

definition lits :: "string \<Rightarrow> item list" where
  "lits s = map (\<lambda>c. One (Lit c)) s"

text \<open>\<^verbatim>\<open>r"^.*\.cpp|\.c|\.go$"\<close> (\<open>get_main_file\<close>).\<close>

definition source_file_re :: regex where
  "source_file_re =
     [ [Bol, Star Dot] @ lits ''.cpp'',
       lits ''.c'',
       lits ''.go'' @ [Eol] ]"

text \<open>\<^verbatim>\<open>r"[api.github.com/repos/]+[/contents/]+"\<close> (\<open>dl_folder_from_github\<close>): the square
  brackets make two character classes.\<close>

definition github_url_re :: regex where
  "github_url_re = [ [Plus (Class ''api.github.com/repos/''), Plus (Class ''/contents/'')] ]"

section \<open>The file system\<close>

text \<open>
  A file system is a table from absolute paths (the list of names from the root) to
  nodes, in the order in which the operating system lists them.  The root is always a
  directory and has no entry.  There are no symbolic links.  A regular file has its
  bytes and its owner-execute bit.
\<close>

type_synonym path = "string list"

datatype node = Dir | File (file_bytes: "byte list") (exec_bit: bool)

type_synonym fs = "(path \<times> node) list"

definition lookup :: "fs \<Rightarrow> path \<Rightarrow> node option" where
  "lookup t p = (if p = [] then Some Dir else map_of t p)"

definition is_dir :: "fs \<Rightarrow> path \<Rightarrow> bool" where
  "is_dir t p = (lookup t p = Some Dir)"

definition is_file :: "fs \<Rightarrow> path \<Rightarrow> bool" where
  "is_file t p = (case lookup t p of Some (File c x) \<Rightarrow> True | _ \<Rightarrow> False)"

text \<open>
  Path resolution as the kernel does it, one component at a time: the directory reached
  so far must exist and be a directory before the next component is read; an empty
  component and \<^verbatim>\<open>.\<close> stay, \<^verbatim>\<open>..\<close> goes up.  The last name need not exist.
\<close>

fun walk :: "fs \<Rightarrow> path \<Rightarrow> string list \<Rightarrow> error + path" where
  "walk t cur [] = Inr cur"
| "walk t cur (c # cs) =
     (case lookup t cur of
        None \<Rightarrow> Inl FileNotFoundError
      | Some (File b x) \<Rightarrow> Inl NotADirectoryError
      | Some Dir \<Rightarrow>
          if c = [] \<or> c = ''.'' then walk t cur cs
          else if c = ''..'' then walk t (butlast cur) cs
          else walk t (cur @ [c]) cs)"

definition slash :: char where
  "slash = CHR ''/''"

text \<open>\<open>cwd\<close> is the working directory of the process; a relative path starts there.\<close>

definition resolve :: "path \<Rightarrow> fs \<Rightarrow> string \<Rightarrow> error + path" where
  "resolve cwd t p =
     (if p = [] then Inl FileNotFoundError
      else walk t (if hd p = slash then [] else cwd) (split_chr slash p))"

text \<open>The names in a directory, in listing order.\<close>

definition children :: "fs \<Rightarrow> path \<Rightarrow> string list" where
  "children t q = map (\<lambda>(k, n). last k) (filter (\<lambda>(k, n). k \<noteq> [] \<and> butlast k = q) t)"

subsection \<open>\<open>os.path\<close>\<close>

text \<open>\<^verbatim>\<open>os.path.join(a, b)\<close> (posixpath): an absolute \<open>b\<close> replaces \<open>a\<close>.\<close>

definition os_path_join :: "string \<Rightarrow> string \<Rightarrow> string" where
  "os_path_join a b =
     (if b \<noteq> [] \<and> hd b = slash then b
      else if a = [] \<or> last a = slash then a @ b
      else a @ [slash] @ b)"

definition rstrip :: "char \<Rightarrow> string \<Rightarrow> string" where
  "rstrip c s = rev (dropWhile (\<lambda>x. x = c) (rev s))"

text \<open>\<^verbatim>\<open>os.path.split(p)\<close>: the head loses its trailing slashes unless it is all slashes.\<close>

definition os_path_split :: "string \<Rightarrow> string \<times> string" where
  "os_path_split p =
     (let tail = rev (takeWhile (\<lambda>c. c \<noteq> slash) (rev p));
          head = take (length p - length tail) p
      in (if head \<noteq> [] \<and> \<not> list_all (\<lambda>c. c = slash) head then rstrip slash head else head,
          tail))"

definition os_path_exists :: "path \<Rightarrow> fs \<Rightarrow> string \<Rightarrow> bool" where
  "os_path_exists cwd t p =
     (case resolve cwd t p of Inl e \<Rightarrow> False | Inr q \<Rightarrow> lookup t q \<noteq> None)"

definition os_path_isdir :: "path \<Rightarrow> fs \<Rightarrow> string \<Rightarrow> bool" where
  "os_path_isdir cwd t p =
     (case resolve cwd t p of Inl e \<Rightarrow> False | Inr q \<Rightarrow> is_dir t q)"

definition os_path_isfile :: "path \<Rightarrow> fs \<Rightarrow> string \<Rightarrow> bool" where
  "os_path_isfile cwd t p =
     (case resolve cwd t p of Inl e \<Rightarrow> False | Inr q \<Rightarrow> is_file t q)"

text \<open>\<^verbatim>\<open>os.path.normpath\<close> and \<^verbatim>\<open>os.path.abspath\<close> (lexical; \<open>cwd\<close> is normal already).\<close>

fun norm_comps :: "string list \<Rightarrow> bool \<Rightarrow> string list \<Rightarrow> string list" where
  "norm_comps acc rooted [] = acc"
| "norm_comps acc rooted (c # cs) =
     (if c = [] \<or> c = ''.'' then norm_comps acc rooted cs
      else if c = ''..'' then
        (if acc \<noteq> [] \<and> last acc \<noteq> ''..'' then norm_comps (butlast acc) rooted cs
         else if rooted then norm_comps acc rooted cs
         else norm_comps (acc @ [c]) rooted cs)
      else norm_comps (acc @ [c]) rooted cs)"

definition getcwd :: "path \<Rightarrow> string" where
  "getcwd cwd = slash # join_str [slash] cwd"

definition os_path_abspath :: "path \<Rightarrow> string \<Rightarrow> string" where
  "os_path_abspath cwd p =
     (let full = os_path_join (getcwd cwd) p;
          lead = (if take 2 full = [slash, slash] \<and> take 3 full \<noteq> [slash, slash, slash]
                  then [slash, slash] else [slash])
      in lead @ join_str [slash] (norm_comps [] True (split_chr slash full)))"

subsection \<open>\<open>os\<close>\<close>

definition os_listdir :: "path \<Rightarrow> fs \<Rightarrow> string \<Rightarrow> error + string list" where
  "os_listdir cwd t p =
     (case resolve cwd t p of
        Inl e \<Rightarrow> Inl e
      | Inr q \<Rightarrow>
          (case lookup t q of
             None \<Rightarrow> Inl FileNotFoundError
           | Some (File b x) \<Rightarrow> Inl NotADirectoryError
           | Some Dir \<Rightarrow> Inr (children t q)))"

text \<open>\<^verbatim>\<open>os.mkdir(p)\<close>: trailing slashes are allowed, the parent must exist.\<close>

definition os_mkdir :: "path \<Rightarrow> fs \<Rightarrow> string \<Rightarrow> error + fs" where
  "os_mkdir cwd t p =
     (if p = [] then Inl FileNotFoundError
      else if rstrip slash p = [] then Inl FileExistsError
      else (case resolve cwd t (rstrip slash p) of
              Inl e \<Rightarrow> Inl e
            | Inr q \<Rightarrow>
                (case lookup t q of
                   Some n \<Rightarrow> Inl FileExistsError
                 | None \<Rightarrow> Inr (AList.update q Dir t))))"

text \<open>
  \<^verbatim>\<open>os.makedirs(name, exist_ok=True)\<close>, after the library's code: create the head first
  when it is missing, then the directory itself; an error of the last \<^verbatim>\<open>mkdir\<close> is
  dropped when the directory is there.  The file system is returned also when the call
  raises, since the heads created before stay.
\<close>

definition makedirs_split :: "string \<Rightarrow> string \<times> string" where
  "makedirs_split name =
     (if snd (os_path_split name) = [] then os_path_split (fst (os_path_split name))
      else os_path_split name)"

definition mkdir_exist_ok :: "path \<Rightarrow> string \<Rightarrow> fs \<Rightarrow> error option \<times> fs" where
  "mkdir_exist_ok cwd name t =
     (case os_mkdir cwd t name of
        Inr t' \<Rightarrow> (None, t')
      | Inl e \<Rightarrow> if os_path_isdir cwd t name then (None, t) else (Some e, t))"

lemma length_rstrip: "length (rstrip c s) \<le> length s"
  unfolding rstrip_def by (metis length_dropWhile_le length_rev)

lemma length_os_path_split_head: "length (fst (os_path_split p)) \<le> length p"
  using length_rstrip [of slash "take (length p - length (takeWhile (\<lambda>c. c \<noteq> slash) (rev p))) p"]
  by (auto simp: os_path_split_def Let_def)

lemma length_os_path_split_tail:
  "snd (os_path_split p) \<noteq> [] \<Longrightarrow> length (fst (os_path_split p)) < length p"
proof -
  let ?tl = "takeWhile (\<lambda>c. c \<noteq> slash) (rev p)"
  assume "snd (os_path_split p) \<noteq> []"
  then have nonempty: "0 < length ?tl"
    by (simp add: os_path_split_def Let_def)
  have "length ?tl \<le> length p"
    by (metis length_takeWhile_le length_rev)
  with nonempty have "length p - length ?tl < length p"
    by linarith
  then have short: "length (take (length p - length ?tl) p) < length p"
    by simp
  have "length (fst (os_path_split p)) \<le> length (take (length p - length ?tl) p)"
    using length_rstrip [of slash "take (length p - length ?tl) p"]
    by (auto simp: os_path_split_def Let_def)
  with short show ?thesis by linarith
qed

lemma length_makedirs_split:
  "snd (makedirs_split name) \<noteq> [] \<Longrightarrow> length (fst (makedirs_split name)) < length name"
proof (cases "snd (os_path_split name) = []")
  case True
  assume "snd (makedirs_split name) \<noteq> []"
  with True have "length (fst (os_path_split (fst (os_path_split name))))
      < length (fst (os_path_split name))"
    by (simp add: makedirs_split_def length_os_path_split_tail)
  with True show ?thesis
    using length_os_path_split_head [of name] by (simp add: makedirs_split_def)
next
  case False
  then show ?thesis
    by (simp add: makedirs_split_def length_os_path_split_tail)
qed

function os_makedirs :: "path \<Rightarrow> string \<Rightarrow> fs \<Rightarrow> error option \<times> fs" where
  "os_makedirs cwd name t =
     (if fst (makedirs_split name) \<noteq> [] \<and> snd (makedirs_split name) \<noteq> []
         \<and> \<not> os_path_exists cwd t (fst (makedirs_split name))
      then
        (case os_makedirs cwd (fst (makedirs_split name)) t of
           (Some e, t1) \<Rightarrow>
             if e \<noteq> FileExistsError then (Some e, t1)
             else if snd (makedirs_split name) = ''.'' then (None, t1)
             else mkdir_exist_ok cwd name t1
         | (None, t1) \<Rightarrow>
             if snd (makedirs_split name) = ''.'' then (None, t1)
             else mkdir_exist_ok cwd name t1)
      else mkdir_exist_ok cwd name t)"
  by pat_completeness auto
termination
  by (relation "measure (\<lambda>(cwd, name, t). length name)")
     (auto simp: length_makedirs_split)

text \<open>
  \<^verbatim>\<open>open(p, 'w')\<close>: the file is created, or truncated when it exists (its mode bits
  stay); the resolved path stands for the open file.  A path that ends in a slash names
  a directory and cannot be opened for writing, whether the name exists or not.
\<close>

definition open_w :: "path \<Rightarrow> fs \<Rightarrow> string \<Rightarrow> error + (path \<times> fs)" where
  "open_w cwd t p =
     (if p \<noteq> [] \<and> last p = slash then
        (if rstrip slash p = [] then Inl IsADirectoryError
         else (case resolve cwd t (rstrip slash p) of
                 Inl e \<Rightarrow> Inl e
               | Inr q \<Rightarrow>
                   (case lookup t q of
                      Some (File b x) \<Rightarrow> Inl NotADirectoryError
                    | other \<Rightarrow> Inl IsADirectoryError)))
      else
        (case resolve cwd t p of
           Inl e \<Rightarrow> Inl e
         | Inr q \<Rightarrow>
             (case lookup t q of
                Some Dir \<Rightarrow> Inl IsADirectoryError
              | Some (File b x) \<Rightarrow> Inr (q, AList.update q (File [] x) t)
              | None \<Rightarrow> Inr (q, AList.update q (File [] False) t))))"

text \<open>Writing through the open file and closing it: the node's bytes are replaced.\<close>

definition write_close :: "path \<Rightarrow> byte list \<Rightarrow> fs \<Rightarrow> fs" where
  "write_close q bs t =
     (case lookup t q of
        Some (File b x) \<Rightarrow> AList.update q (File bs x) t
      | _ \<Rightarrow> t)"

text \<open>\<^verbatim>\<open>os.chmod(p, os.stat(p).st_mode | stat.S_IEXEC)\<close>.\<close>

definition chmod_exec :: "path \<Rightarrow> fs \<Rightarrow> string \<Rightarrow> error + fs" where
  "chmod_exec cwd t p =
     (case resolve cwd t p of
        Inl e \<Rightarrow> Inl e
      | Inr q \<Rightarrow>
          (case lookup t q of
             None \<Rightarrow> Inl FileNotFoundError
           | Some Dir \<Rightarrow> Inr t
           | Some (File b x) \<Rightarrow> Inr (AList.update q (File b True) t)))"

text \<open>\<^verbatim>\<open>os.rmdir(p)\<close>: only an empty directory, not the root, not through \<^verbatim>\<open>.\<close>.\<close>

definition os_rmdir :: "path \<Rightarrow> fs \<Rightarrow> string \<Rightarrow> error + fs" where
  "os_rmdir cwd t p =
     (case resolve cwd t p of
        Inl e \<Rightarrow> Inl e
      | Inr q \<Rightarrow>
          (case lookup t q of
             None \<Rightarrow> Inl FileNotFoundError
           | Some (File b x) \<Rightarrow> Inl NotADirectoryError
           | Some Dir \<Rightarrow>
               if q = [] \<or> children t q \<noteq> [] \<or> last (split_chr slash (rstrip slash p)) \<in> {''.'', ''..''}
               then Inl OSError
               else Inr (AList.delete q t)))"

text \<open>
  \<^verbatim>\<open>os.rename(src, dst)\<close>: a file replaces a file, a directory replaces an empty
  directory.  Before the kinds are compared, a source that is an ancestor of the target
  is refused (\<^verbatim>\<open>EINVAL\<close>) and so is a target that is an ancestor of the source
  (\<^verbatim>\<open>ENOTEMPTY\<close>), both plain \<open>OSError\<close>.  The nodes below \<open>src\<close> move along and keep
  their place in the table.
\<close>

definition move_tree :: "path \<Rightarrow> path \<Rightarrow> fs \<Rightarrow> fs" where
  "move_tree qs qd t =
     map (\<lambda>(k, n). if prefix qs k then (qd @ drop (length qs) k, n) else (k, n)) t"

definition os_rename :: "path \<Rightarrow> fs \<Rightarrow> string \<Rightarrow> string \<Rightarrow> error + fs" where
  "os_rename cwd t src dst =
     (case resolve cwd t src of
        Inl e \<Rightarrow> Inl e
      | Inr qs \<Rightarrow>
          (case lookup t qs of
             None \<Rightarrow> Inl FileNotFoundError
           | Some ns \<Rightarrow>
               (case resolve cwd t dst of
                  Inl e \<Rightarrow> Inl e
                | Inr qd \<Rightarrow>
                    if qs = qd then Inr t
                    else if prefix qs qd then Inl OSError
                    else if prefix qd qs then Inl OSError
                    else (case (ns, lookup t qd) of
                            (File b x, Some Dir) \<Rightarrow> Inl IsADirectoryError
                          | (Dir, Some (File b x)) \<Rightarrow> Inl NotADirectoryError
                          | (Dir, Some Dir) \<Rightarrow>
                              if children t qd \<noteq> [] then Inl OSError
                              else Inr (move_tree qs qd (AList.delete qd t))
                          | _ \<Rightarrow> Inr (move_tree qs qd (AList.delete qd t))))))"

section \<open>Library codecs\<close>

subsection \<open>\<open>base64.b64decode\<close>\<close>

definition b64_value :: "char \<Rightarrow> nat option" where
  "b64_value c =
     (let n = (of_char c :: nat) in
      if 65 \<le> n \<and> n \<le> 90 then Some (n - 65)
      else if 97 \<le> n \<and> n \<le> 122 then Some (n - 71)
      else if 48 \<le> n \<and> n \<le> 57 then Some (n + 4)
      else if n = 43 then Some 62
      else if n = 47 then Some 63
      else None)"

text \<open>
  The decoder of \<^verbatim>\<open>binascii.a2b_base64\<close> without strict mode, as \<^verbatim>\<open>b64decode\<close> calls
  it: characters outside the alphabet are skipped, a complete padding ends the input,
  a quad left open at the end is an error.  \<open>q\<close> is the position in the quad, \<open>left\<close>
  the bits not yet written, \<open>pads\<close> the padding characters seen since the last digit.
\<close>

fun a2b_base64 :: "nat \<Rightarrow> nat \<Rightarrow> nat \<Rightarrow> byte list \<Rightarrow> string \<Rightarrow> error + byte list" where
  "a2b_base64 q left pads out [] = (if q = 0 then Inr out else Inl BinasciiError)"
| "a2b_base64 q left pads out (c # cs) =
     (if c = CHR ''='' then
        (if 2 \<le> q \<and> 4 \<le> q + (pads + 1) then Inr out
         else a2b_base64 q left (if 2 \<le> q then pads + 1 else pads) out cs)
      else
        (case b64_value c of
           None \<Rightarrow> a2b_base64 q left pads out cs
         | Some v \<Rightarrow>
             if q = 0 then a2b_base64 1 v 0 out cs
             else if q = 1 then a2b_base64 2 (v mod 16) 0 (out @ [of_nat (left * 4 + v div 16)]) cs
             else if q = 2 then a2b_base64 3 (v mod 4) 0 (out @ [of_nat (left * 16 + v div 4)]) cs
             else a2b_base64 0 0 0 (out @ [of_nat (left * 64 + v)]) cs))"

definition b64decode :: "string \<Rightarrow> error + byte list" where
  "b64decode s =
     (if list_ex (\<lambda>c. 128 \<le> (of_char c :: nat)) s
      then Inl (ValueError ''string argument should contain only ASCII characters'')
      else a2b_base64 0 0 0 [] s)"

subsection \<open>UTF-8\<close>

text \<open>
  \<^verbatim>\<open>bytes.decode("utf-8")\<close> is strict: it refuses a stray continuation byte, a cut
  sequence, an overlong form, a surrogate and a value above U+10FFFF.  A Python \<open>str\<close>
  is the list of its code points.
\<close>

definition cont :: "nat \<Rightarrow> bool" where
  "cont b = (128 \<le> b \<and> b \<le> 191)"

fun utf8_dec :: "nat list \<Rightarrow> nat list option" where
  "utf8_dec [] = Some []"
| "utf8_dec (b0 # bs) =
     (if b0 < 128 then map_option (\<lambda>r. b0 # r) (utf8_dec bs)
      else if 194 \<le> b0 \<and> b0 \<le> 223 then
        (case bs of
           b1 # r \<Rightarrow>
             if cont b1
             then map_option (\<lambda>r'. ((b0 - 192) * 64 + (b1 - 128)) # r') (utf8_dec r)
             else None
         | _ \<Rightarrow> None)
      else if 224 \<le> b0 \<and> b0 \<le> 239 then
        (case bs of
           b1 # b2 # r \<Rightarrow>
             if (if b0 = 224 then 160 else 128) \<le> b1 \<and> b1 \<le> (if b0 = 237 then 159 else 191)
                \<and> cont b2
             then map_option
                    (\<lambda>r'. ((b0 - 224) * 4096 + (b1 - 128) * 64 + (b2 - 128)) # r') (utf8_dec r)
             else None
         | _ \<Rightarrow> None)
      else if 240 \<le> b0 \<and> b0 \<le> 244 then
        (case bs of
           b1 # b2 # b3 # r \<Rightarrow>
             if (if b0 = 240 then 144 else 128) \<le> b1 \<and> b1 \<le> (if b0 = 244 then 143 else 191)
                \<and> cont b2 \<and> cont b3
             then map_option
                    (\<lambda>r'. ((b0 - 240) * 262144 + (b1 - 128) * 4096 + (b2 - 128) * 64 + (b3 - 128)) # r')
                    (utf8_dec r)
             else None
         | _ \<Rightarrow> None)
      else None)"

definition utf8_decode :: "byte list \<Rightarrow> error + nat list" where
  "utf8_decode bs =
     (case utf8_dec (map unat bs) of None \<Rightarrow> Inl UnicodeDecodeError | Some cps \<Rightarrow> Inr cps)"

text \<open>\<^verbatim>\<open>str.encode("utf-8")\<close>, strict as well: a surrogate cannot be encoded.\<close>

definition utf8_enc1 :: "nat \<Rightarrow> nat list option" where
  "utf8_enc1 cp =
     (if cp < 128 then Some [cp]
      else if cp < 2048 then Some [192 + cp div 64, 128 + cp mod 64]
      else if cp < 65536 then
        (if 55296 \<le> cp \<and> cp \<le> 57343 then None
         else Some [224 + cp div 4096, 128 + (cp div 64) mod 64, 128 + cp mod 64])
      else if cp < 1114112 then
        Some [240 + cp div 262144, 128 + (cp div 4096) mod 64, 128 + (cp div 64) mod 64,
              128 + cp mod 64]
      else None)"

fun utf8_enc :: "nat list \<Rightarrow> nat list option" where
  "utf8_enc [] = Some []"
| "utf8_enc (cp # cps) =
     (case utf8_enc1 cp of
        None \<Rightarrow> None
      | Some bs \<Rightarrow> map_option (\<lambda>r. bs @ r) (utf8_enc cps))"

definition utf8_encode :: "nat list \<Rightarrow> error + byte list" where
  "utf8_encode cps =
     (case utf8_enc cps of None \<Rightarrow> Inl UnicodeEncodeError | Some ns \<Rightarrow> Inr (map of_nat ns))"

section \<open>The environment of a run\<close>

subsection \<open>Remote documents\<close>

text \<open>
  What \<^verbatim>\<open>json.loads\<close> returns for the three endpoints: a tree listing
  \<^verbatim>\<open>{"tree": [...]}\<close>, a blob \<^verbatim>\<open>{"encoding": ..., "content": ...}\<close>, a contents listing
  (a JSON array), or a single contents object.  A key that \<open>utils.py\<close> tests with
  \<^verbatim>\<open>in\<close> is optional; \<^verbatim>\<open>download_url\<close> can be absent, \<^verbatim>\<open>null\<close> or a URL.
\<close>

record tree_element =
  elem_path :: string
  elem_mode :: string
  elem_url :: string

record blob =
  blob_encoding :: string
  blob_content :: string

record contents_entry =
  entry_name :: string
  entry_download_url :: "string option option"
  entry_submodule_git_url :: "string option"

record contents_object =
  obj_submodule_git_url :: "string option"
  obj_git_url :: "string option"

datatype document =
    TreeDoc "tree_element list"
  | BlobDoc blob
  | ListDoc "contents_entry list"
  | ObjectDoc contents_object

text \<open>
  The environment a run does not change: the working directory, the directories of
  \<^verbatim>\<open>PATH\<close>, what a file opened in text mode writes for a \<open>str\<close> (the encoding of the
  locale; it raises for a \<open>str\<close> it cannot encode), what the remote answers to a GET (as
  parsed JSON and as raw bytes; \<open>Inl\<close> is a transport or parse failure), and what
  running the executable at a path with some arguments does to the file system, with
  its exit status.
\<close>

record env =
  workdir :: path
  exec_path :: "string list"
  text_encode :: "nat list \<Rightarrow> error + byte list"
  http_json :: "string \<Rightarrow> error + document"
  http_raw :: "string \<Rightarrow> error + byte list"
  program :: "path \<Rightarrow> string list \<Rightarrow> fs \<Rightarrow> nat \<times> fs"

text \<open>
  The state a run changes: the files, and two logs, the URLs requested and the
  processes started (executable and arguments), oldest first.
\<close>

record world =
  files :: fs
  requests :: "string list"
  spawned :: "(path \<times> string list) list"

subsection \<open>\<open>subprocess\<close>\<close>

text \<open>Starting the file at a path: it must be a regular file with the execute bit.\<close>

definition executable_at :: "env \<Rightarrow> fs \<Rightarrow> string \<Rightarrow> error + path" where
  "executable_at E t p =
     (case resolve (workdir E) t p of
        Inl e \<Rightarrow> Inl e
      | Inr q \<Rightarrow>
          (case lookup t q of
             None \<Rightarrow> Inl FileNotFoundError
           | Some Dir \<Rightarrow> Inl PermissionError
           | Some (File b x) \<Rightarrow> if x then Inr q else Inl PermissionError))"

text \<open>
  A program name without a slash is searched in the directories of \<^verbatim>\<open>PATH\<close>, in
  order; the first one that starts wins.  When none does, the first error other than
  "not found" is reported.
\<close>

fun search_exec :: "env \<Rightarrow> fs \<Rightarrow> string \<Rightarrow> string list \<Rightarrow> error option \<Rightarrow> error + path" where
  "search_exec E t prog [] saved =
     (case saved of None \<Rightarrow> Inl FileNotFoundError | Some e \<Rightarrow> Inl e)"
| "search_exec E t prog (d # ds) saved =
     (case executable_at E t (os_path_join d prog) of
        Inr q \<Rightarrow> Inr q
      | Inl e \<Rightarrow>
          search_exec E t prog ds
            (if saved = None \<and> e \<noteq> FileNotFoundError \<and> e \<noteq> NotADirectoryError
             then Some e else saved))"

definition locate :: "env \<Rightarrow> fs \<Rightarrow> string \<Rightarrow> error + path" where
  "locate E t prog =
     (if slash \<in> set prog then executable_at E t prog
      else search_exec E t prog (exec_path E) None)"

text \<open>\<^verbatim>\<open>subprocess.call(argv)\<close>: the exit status; raises when the program cannot start.\<close>

definition subprocess_call :: "env \<Rightarrow> string list \<Rightarrow> world \<Rightarrow> (error + nat) \<times> world" where
  "subprocess_call E argv w =
     (case argv of
        [] \<Rightarrow> (Inl IndexError, w)
      | prog # args \<Rightarrow>
          (case locate E (files w) prog of
             Inl e \<Rightarrow> (Inl e, w)
           | Inr q \<Rightarrow>
               (let (status, t') = program E q args (files w)
                in (Inr status, w\<lparr>files := t', spawned := spawned w @ [(q, args)]\<rparr>))))"

text \<open>\<^verbatim>\<open>subprocess.check_output(argv)\<close>: a non-zero exit status raises.\<close>

definition check_output :: "env \<Rightarrow> string list \<Rightarrow> world \<Rightarrow> (error + unit) \<times> world" where
  "check_output E argv w =
     (case subprocess_call E argv w of
        (Inl e, w') \<Rightarrow> (Inl e, w')
      | (Inr status, w') \<Rightarrow> if status = 0 then (Inr (), w') else (Inl CalledProcessError, w'))"

text \<open>A GET request: logged, then answered by the environment.\<close>

definition urlopen_json :: "env \<Rightarrow> string \<Rightarrow> world \<Rightarrow> (error + document) \<times> world" where
  "urlopen_json E u w = (http_json E u, w\<lparr>requests := requests w @ [u]\<rparr>)"

text \<open>\<^verbatim>\<open>urllib.request.urlretrieve(u, dest)\<close>: the request first, then the file, in binary.\<close>

definition urlretrieve :: "env \<Rightarrow> string \<Rightarrow> string \<Rightarrow> world \<Rightarrow> (error + unit) \<times> world" where
  "urlretrieve E u dest w =
     (let w1 = w\<lparr>requests := requests w @ [u]\<rparr> in
      case http_raw E u of
        Inl e \<Rightarrow> (Inl e, w1)
      | Inr bs \<Rightarrow>
          (case open_w (workdir E) (files w1) dest of
             Inl e \<Rightarrow> (Inl e, w1)
           | Inr (q, t1) \<Rightarrow> (Inr (), w1\<lparr>files := write_close q bs t1\<rparr>)))"

section \<open>\<open>utils.py\<close>\<close>

subsection \<open>\<open>create_dir\<close>, \<open>make_executable\<close>, \<open>write_file\<close>\<close>

definition create_dir :: "env \<Rightarrow> string \<Rightarrow> world \<Rightarrow> (error + unit) \<times> world" where
  "create_dir E abs_path w =
     (if \<not> os_path_isdir (workdir E) (files w) abs_path then
        (case subprocess_call E [''mkdir'', ''-p'', abs_path] w of
           (Inl e, w') \<Rightarrow> (Inl e, w')
         | (Inr status, w') \<Rightarrow> (Inr (), w'))
      else (Inr (), w))"

definition make_executable :: "env \<Rightarrow> string \<Rightarrow> world \<Rightarrow> (error + unit) \<times> world" where
  "make_executable E abs_path w =
     (case chmod_exec (workdir E) (files w) abs_path of
        Inl e \<Rightarrow> (Inl e, w)
      | Inr t' \<Rightarrow> (Inr (), w\<lparr>files := t'\<rparr>))"

text \<open>
  \<open>write_file\<close> opens the file for writing in text mode before it decodes anything, so
  the file is there, empty, when a decoding raises.  The decoded bytes are read as
  UTF-8 into a \<open>str\<close>; the text file writes the \<open>str\<close> out in the encoding of the locale
  (\<open>text_encode\<close>), since \<^verbatim>\<open>open(file_path, 'w')\<close> names no encoding.
\<close>

definition write_file :: "env \<Rightarrow> string \<Rightarrow> string \<Rightarrow> world \<Rightarrow> (error + unit) \<times> world" where
  "write_file E file_path b64_string w =
     (case open_w (workdir E) (files w) file_path of
        Inl e \<Rightarrow> (Inl e, w)
      | Inr (q, t1) \<Rightarrow>
          (case b64decode b64_string of
             Inl e \<Rightarrow> (Inl e, w\<lparr>files := t1\<rparr>)
           | Inr decoded \<Rightarrow>
               (case utf8_decode decoded of
                  Inl e \<Rightarrow> (Inl e, w\<lparr>files := t1\<rparr>)
                | Inr text \<Rightarrow>
                    (case text_encode E text of
                       Inl e \<Rightarrow> (Inl e, w\<lparr>files := t1\<rparr>)
                     | Inr written \<Rightarrow> (Inr (), w\<lparr>files := write_close q written t1\<rparr>)))))"

subsection \<open>\<open>get_main_file\<close>\<close>

text \<open>The files that are scanned: plain files whose joined path the pattern does not match.\<close>

definition candidates :: "env \<Rightarrow> fs \<Rightarrow> string \<Rightarrow> string list \<Rightarrow> string list" where
  "candidates E t install_path content =
     filter (\<lambda>f. os_path_isfile (workdir E) t (os_path_join install_path f)
                 \<and> \<not> re_search source_file_re (os_path_join install_path f)) content"

fun first_main :: "string list \<Rightarrow> string \<Rightarrow> string list \<Rightarrow> string option" where
  "first_main possible_filenames install_path [] = None"
| "first_main possible_filenames install_path (filename # rest) =
     (if list_ex (\<lambda>possible_filename. str_in possible_filename filename) possible_filenames
      then Some (os_path_join install_path filename)
      else first_main possible_filenames install_path rest)"

text \<open>The loop that moves the children of the wrapping directory up.\<close>

fun unwrap :: "env \<Rightarrow> string \<Rightarrow> string \<Rightarrow> string list \<Rightarrow> fs \<Rightarrow> error option \<times> fs" where
  "unwrap E install_path tmp_file [] t = (None, t)"
| "unwrap E install_path tmp_file (f # rest) t =
     (case os_rename (workdir E) t (os_path_join tmp_file f) (os_path_join install_path f) of
        Inl e \<Rightarrow> (Some e, t)
      | Inr t' \<Rightarrow> unwrap E install_path tmp_file rest t')"

definition get_main_file ::
  "env \<Rightarrow> string list \<Rightarrow> string \<Rightarrow> world \<Rightarrow> (error + string option) \<times> world" where
  "get_main_file E possible_filenames install_path w =
     (case os_listdir (workdir E) (files w) install_path of
        Inl e \<Rightarrow> (Inl e, w)
      | Inr content \<Rightarrow>
          if length content = 1 then
            (let tmp_file = os_path_join install_path (hd content) in
             if \<not> os_path_isdir (workdir E) (files w) tmp_file then (Inr (Some tmp_file), w)
             else
               (case os_listdir (workdir E) (files w) tmp_file of
                  Inl e \<Rightarrow> (Inl e, w)
                | Inr inner \<Rightarrow>
                    (case unwrap E install_path tmp_file inner (files w) of
                       (Some e, t1) \<Rightarrow> (Inl e, w\<lparr>files := t1\<rparr>)
                     | (None, t1) \<Rightarrow>
                         (case os_rmdir (workdir E) t1 tmp_file of
                            Inl e \<Rightarrow> (Inl e, w\<lparr>files := t1\<rparr>)
                          | Inr t2 \<Rightarrow>
                              (case os_listdir (workdir E) t2 install_path of
                                 Inl e \<Rightarrow> (Inl e, w\<lparr>files := t2\<rparr>)
                               | Inr content' \<Rightarrow>
                                   (Inr (first_main possible_filenames install_path
                                           (candidates E t2 install_path content')),
                                    w\<lparr>files := t2\<rparr>))))))
          else
            (Inr (first_main possible_filenames install_path
                    (candidates E (files w) install_path content)), w))"

subsection \<open>\<open>dl_github_repo\<close>\<close>

text \<open>The body of the loop over \<^verbatim>\<open>json_content["tree"]\<close>, for one element.\<close>

definition dl_element :: "env \<Rightarrow> string \<Rightarrow> tree_element \<Rightarrow> world \<Rightarrow> (error + unit) \<times> world" where
  "dl_element E install_path element w =
     (case py_index (elem_path element) 0 of
        Inl e \<Rightarrow> (Inl e, w)
      | Inr c \<Rightarrow>
          if c = CHR ''.'' then (Inr (), w)
          else if elem_mode element = ''040000'' then (Inr (), w)
          else
            (let abs_path = os_path_join install_path (elem_path element);
                 (raised, t1) =
                   (if 1 < length (split_chr slash (elem_path element)) then
                      os_makedirs (workdir E)
                        (os_path_join install_path
                           (join_str [slash] (butlast (split_chr slash abs_path))))
                        (files w)
                    else (None, files w));
                 w1 = w\<lparr>files := t1\<rparr>
             in case raised of
                  Some e \<Rightarrow> (Inl e, w1)
                | None \<Rightarrow>
                    (case urlopen_json E (elem_url element) w1 of
                       (Inl e, w2) \<Rightarrow> (Inl e, w2)
                     | (Inr (BlobDoc blob_json), w2) \<Rightarrow>
                         if blob_encoding blob_json \<noteq> ''base64'' then (Inl AssertionError, w2)
                         else
                           (case write_file E abs_path (blob_content blob_json) w2 of
                              (Inl e, w3) \<Rightarrow> (Inl e, w3)
                            | (Inr u, w3) \<Rightarrow>
                                if elem_mode element = ''100755''
                                then make_executable E abs_path w3
                                else (Inr (), w3))
                     | (Inr (ListDoc l), w2) \<Rightarrow> (Inl TypeError, w2)
                     | (Inr other, w2) \<Rightarrow> (Inl KeyError, w2))))"

fun dl_elements :: "env \<Rightarrow> string \<Rightarrow> tree_element list \<Rightarrow> world \<Rightarrow> (error + unit) \<times> world" where
  "dl_elements E install_path [] w = (Inr (), w)"
| "dl_elements E install_path (element # rest) w =
     (case dl_element E install_path element w of
        (Inl e, w') \<Rightarrow> (Inl e, w')
      | (Inr u, w') \<Rightarrow> dl_elements E install_path rest w')"

definition dl_github_repo :: "env \<Rightarrow> string \<Rightarrow> string \<Rightarrow> world \<Rightarrow> (error + unit) \<times> world" where
  "dl_github_repo E install_path url w =
     (case urlopen_json E (url @ ''?recursive=1'') w of
        (Inl e, w1) \<Rightarrow> (Inl e, w1)
      | (Inr (TreeDoc tree), w1) \<Rightarrow> dl_elements E install_path tree w1
      | (Inr (ListDoc l), w1) \<Rightarrow> (Inl TypeError, w1)
      | (Inr other, w1) \<Rightarrow> (Inl KeyError, w1))"

subsection \<open>\<open>dl_folder_from_github\<close>\<close>

text \<open>The URL of the recursive call:
  \<^verbatim>\<open>url + i["name"] if url[:-1] == '/' else url + '/' + i["name"]\<close>;
  \<^verbatim>\<open>url[:-1]\<close> is \<open>url\<close> without its last character.\<close>

definition child_url :: "string \<Rightarrow> string \<Rightarrow> string" where
  "child_url url name = (if butlast url = [slash] then url @ name else url @ [slash] @ name)"

text \<open>
  The function calls itself for every nested directory of the remote, which bounds
  nothing; the interpreter does, with \<open>RecursionError\<close>.  \<open>depth\<close> is the number of
  nested calls the interpreter still allows.
\<close>

fun dl_folder_from_github ::
    "env \<Rightarrow> nat \<Rightarrow> string \<Rightarrow> string \<Rightarrow> world \<Rightarrow> (error + unit) \<times> world"
  and dl_folder_entries ::
    "env \<Rightarrow> nat \<Rightarrow> string \<Rightarrow> string \<Rightarrow> contents_entry list \<Rightarrow> world \<Rightarrow> (error + unit) \<times> world"
where
  "dl_folder_from_github E 0 install_path url w = (Inl RecursionError, w)"
| "dl_folder_from_github E (Suc depth) install_path url w =
     (if \<not> re_search github_url_re url then (Inl (ValueError ''Unsupported url''), w)
      else
        (case urlopen_json E url w of
           (Inl e, w1) \<Rightarrow> (Inl e, w1)
         | (Inr (ListDoc json_content), w1) \<Rightarrow>
             dl_folder_entries E depth install_path url json_content w1
         | (Inr (ObjectDoc json_content), w1) \<Rightarrow>
             (case obj_submodule_git_url json_content of
                Some s \<Rightarrow>
                  (case obj_git_url json_content of
                     None \<Rightarrow> (Inl KeyError, w1)
                   | Some g \<Rightarrow> dl_github_repo E install_path g w1)
              | None \<Rightarrow> (Inl (ValueError ''Could not parse json''), w1))
         | (Inr other, w1) \<Rightarrow> (Inl (ValueError ''Could not parse json''), w1)))"
| "dl_folder_entries E depth install_path url [] w = (Inr (), w)"
| "dl_folder_entries E depth install_path url (i # rest) w =
     (case entry_download_url i of
        Some (Some download_url) \<Rightarrow>
          (case urlretrieve E download_url (os_path_join install_path (entry_name i)) w of
             (Inl e, w1) \<Rightarrow> (Inl e, w1)
           | (Inr u, w1) \<Rightarrow> dl_folder_entries E depth install_path url rest w1)
      | Some None \<Rightarrow>
          (case create_dir E (os_path_join install_path (entry_name i)) w of
             (Inl e, w1) \<Rightarrow> (Inl e, w1)
           | (Inr u, w1) \<Rightarrow>
               (case dl_folder_from_github E depth (os_path_join install_path (entry_name i))
                       (child_url url (entry_name i)) w1 of
                  (Inl e, w2) \<Rightarrow> (Inl e, w2)
                | (Inr u, w2) \<Rightarrow> dl_folder_entries E depth install_path url rest w2))
      | None \<Rightarrow>
          (case entry_submodule_git_url i of
             Some s \<Rightarrow> (Inl TypeError, w)
           | None \<Rightarrow> dl_folder_entries E depth install_path url rest w))"

subsection \<open>\<open>handle_compilation\<close>\<close>

definition go_build_failed :: string where
  "go_build_failed = ''Could not 'go build' the plugin, is golang installed ?''"

text \<open>The second loop, over the names that contain a dot.\<close>

fun go_builds :: "env \<Rightarrow> string list \<Rightarrow> world \<Rightarrow> (error + unit) \<times> world" where
  "go_builds E [] w = (Inr (), w)"
| "go_builds E (filename # rest) w =
     (if py_index (split_chr (CHR ''.'') filename) 1 = Inr ''go'' then
        (case check_output E [os_path_abspath (workdir E) ''go'', ''build''] w of
           (Inl e, w') \<Rightarrow>
             if e = FileNotFoundError \<or> e = CalledProcessError
             then (Inl (Exception go_build_failed), w')
             else (Inl e, w')
         | (Inr u, w') \<Rightarrow> go_builds E rest w')
      else go_builds E rest w)"

definition handle_compilation :: "env \<Rightarrow> string \<Rightarrow> world \<Rightarrow> (error + unit) \<times> world" where
  "handle_compilation E directory w =
     (case os_listdir (workdir E) (files w) directory of
        Inl e \<Rightarrow> (Inl e, w)
      | Inr content \<Rightarrow>
          if ''Makefile'' \<in> set content then check_output E [''make''] w
          else go_builds E (filter (\<lambda>name. CHR ''.'' \<in> set name) content) w)"

subsection \<open>\<open>pip_install\<close>\<close>











section \<open>Predicates and example environments\<close>

text \<open>A tree element that \<open>dl_github_repo\<close> skips: its path begins with a dot.\<close>

definition hidden :: "tree_element \<Rightarrow> bool" where
  "hidden element = (elem_path element \<noteq> [] \<and> hd (elem_path element) = CHR ''.'')"

text \<open>Every name in the table is a file name: not empty and without a slash.\<close>

definition names_ok :: "fs \<Rightarrow> bool" where
  "names_ok t = list_all (\<lambda>(k, n). list_all (\<lambda>c. c \<noteq> [] \<and> slash \<notin> set c) k) t"


text \<open>
  An environment without a network, where every program exits with status 0 and leaves
  the files alone; the process runs in \<^verbatim>\<open>/work\<close> with \<^verbatim>\<open>PATH=/usr/bin\<close>.
\<close>

definition offline :: env where
  "offline =
     \<lparr>workdir = [''work''], exec_path = [''/usr/bin''], text_encode = utf8_encode,
      http_json = (\<lambda>u. Inl URLError), http_raw = (\<lambda>u. Inl URLError),
      program = (\<lambda>q args t. (0, t))\<rparr>"

definition on_disk :: "fs \<Rightarrow> world" where
  "on_disk t = \<lparr>files = t, requests = [], spawned = []\<rparr>"

text \<open>The plugin directory \<^verbatim>\<open>/plugins/x\<close> holding empty plain files of the given names.\<close>

definition plugin_dir :: "string list \<Rightarrow> fs" where
  "plugin_dir names =
     [([''plugins''], Dir), ([''plugins'', ''x''], Dir)]
     @ map (\<lambda>n. ([''plugins'', ''x'', n], File [] False)) names"

text \<open>An executable \<^verbatim>\<open>/usr/bin/prog\<close>, and the working directory \<^verbatim>\<open>/work\<close>.\<close>

definition usr_bin :: "string \<Rightarrow> fs" where
  "usr_bin prog =
     [([''usr''], Dir), ([''usr'', ''bin''], Dir), ([''usr'', ''bin'', prog], File [] True),
      ([''work''], Dir)]"

text \<open>A copy of the Go tool in the working directory itself, \<^verbatim>\<open>/work/go\<close>.\<close>

definition go_in_workdir :: fs where
  "go_in_workdir = [([''work''], Dir), ([''work'', ''go''], File [] True)]"

text \<open>
  A remote whose contents endpoint for the directory \<^verbatim>\<open>d/\<close> lists one nested directory
  \<^verbatim>\<open>sub\<close> (its \<^verbatim>\<open>download_url\<close> is \<^verbatim>\<open>null\<close>) and answers nothing else; \<^verbatim>\<open>mkdir -p\<close> works.
\<close>

definition contents_d :: string where
  "contents_d = ''https://api.github.com/repos/o/r/contents/d/''"

definition nested_remote :: env where
  "nested_remote =
     \<lparr>workdir = [''work''], exec_path = [''/usr/bin''], text_encode = utf8_encode,
      http_json = (\<lambda>u. if u = contents_d
                        then Inr (ListDoc [\<lparr>entry_name = ''sub'', entry_download_url = Some None,
                                            entry_submodule_git_url = None\<rparr>])
                        else Inl URLError),
      http_raw = (\<lambda>u. Inl URLError),
      program = (\<lambda>q args t.
                   case args of
                     [flag, p] \<Rightarrow>
                       (case os_makedirs [''work''] p t of
                          (None, t') \<Rightarrow> (0, t')
                        | (Some e, t') \<Rightarrow> (1, t'))
                   | _ \<Rightarrow> (1, t))\<rparr>"

text \<open>
  A remote repository with two files, \<^verbatim>\<open>.gitignore\<close> and the executable \<^verbatim>\<open>main.py\<close>
  whose blob is \<^verbatim>\<open>hello\<close> in base64.
\<close>

definition tree_url :: string where
  "tree_url = ''https://api.github.com/repos/o/r/git/trees/master''"

definition small_repo :: env where
  "small_repo =
     \<lparr>workdir = [''work''], exec_path = [''/usr/bin''], text_encode = utf8_encode,
      http_json = (\<lambda>u.
         if u = tree_url @ ''?recursive=1'' then
           Inr (TreeDoc [\<lparr>elem_path = ''.gitignore'', elem_mode = ''100644'', elem_url = ''blob/1''\<rparr>,
                         \<lparr>elem_path = ''main.py'', elem_mode = ''100755'', elem_url = ''blob/2''\<rparr>])
         else if u = ''blob/1'' then
           Inr (BlobDoc \<lparr>blob_encoding = ''base64'', blob_content = ''Ki5weWM=''\<rparr>)
         else if u = ''blob/2'' then
           Inr (BlobDoc \<lparr>blob_encoding = ''base64'', blob_content = ''aGVsbG8=''\<rparr>)
         else Inl URLError),
      http_raw = (\<lambda>u. Inl URLError),
      program = (\<lambda>q args t. (0, t))\<rparr>"






text \<open>
  A remote repository with the directories \<^verbatim>\<open>a\<close> and \<^verbatim>\<open>a/b\<close> and the file
  \<^verbatim>\<open>a/b/c.py\<close>, whose blob has the given base64 content.
\<close>

definition one_file_repo :: "string \<Rightarrow> env" where
  "one_file_repo b64 =
     \<lparr>workdir = [''work''], exec_path = [''/usr/bin''], text_encode = utf8_encode,
      http_json = (\<lambda>u.
         if u = tree_url @ ''?recursive=1'' then
           Inr (TreeDoc [\<lparr>elem_path = ''a'', elem_mode = ''040000'', elem_url = ''tree/3''\<rparr>,
                         \<lparr>elem_path = ''a/b'', elem_mode = ''040000'', elem_url = ''tree/4''\<rparr>,
                         \<lparr>elem_path = ''a/b/c.py'', elem_mode = ''100644'', elem_url = ''blob/5''\<rparr>])
         else if u = ''blob/5'' then
           Inr (BlobDoc \<lparr>blob_encoding = ''base64'', blob_content = b64\<rparr>)
         else Inl URLError),
      http_raw = (\<lambda>u. Inl URLError),
      program = (\<lambda>q args t. (0, t))\<rparr>"










section \<open>Properties\<close>

subsection \<open>The URL check of \<open>dl_folder_from_github\<close>\<close>

text \<open>
  C3.  The claim: a URL that is not of the shape \<^verbatim>\<open>api.../repos/.../contents/...\<close> is
  refused with a configuration error before any request.  The pattern is two character
  classes, so any URL with two adjacent characters out of them passes, \<^verbatim>\<open>//\<close> for one:
  for \<^verbatim>\<open>https://example.org/notes.txt\<close> the check passes and the request is made (it
  is in the log; here the network then fails).
\<close>

theorem url_check_passes_foreign_url:
  "dl_folder_from_github offline 1 ''/plugins/x'' ''https://example.org/notes.txt'' (on_disk [])
     = (Inl URLError, (on_disk [])\<lparr>requests := [''https://example.org/notes.txt'']\<rparr>)"
  by (simp add: offline_def on_disk_def re_search_def github_url_re_def urlopen_json_def)

text \<open>More generally, every URL with \<^verbatim>\<open>//\<close> in it passes the check.\<close>

lemma search_from_double_slash: "sublist ''//'' s \<Longrightarrow> search_from github_url_re st s"
proof (induction s arbitrary: st)
  case Nil
  then show ?case by simp
next
  case (Cons c cs)
  from Cons.prems have "prefix ''//'' (c # cs) \<or> sublist ''//'' cs"
    by (simp add: sublist_Cons_right)
  then show ?case
  proof
    assume "prefix ''//'' (c # cs)"
    then obtain r where "c # cs = ''//'' @ r"
      by (auto simp: prefix_def)
    then have "match_here [Plus (Class ''api.github.com/repos/''), Plus (Class ''/contents/'')]
                 st (c # cs)"
      by (cases r) auto
    then show ?thesis
      by (simp add: github_url_re_def)
  next
    assume "sublist ''//'' cs"
    then show ?thesis
      using Cons.IH by simp
  qed
qed

lemma url_check_double_slash: "str_in ''//'' url \<Longrightarrow> re_search github_url_re url"
  by (simp add: re_search_def search_from_double_slash)

subsection \<open>The URL of a nested directory\<close>

text \<open>
  C9.  The claim: the child URL is the parent URL and the name, with a slash put
  between them only when the parent URL does not end in one.  The test reads
  \<^verbatim>\<open>url[:-1] == '/'\<close>, which compares the URL without its last character, so for the
  parent \<^verbatim>\<open>.../contents/d/\<close> the run requests \<^verbatim>\<open>.../contents/d//sub\<close>.
\<close>

theorem nested_directory_url_double_slash:
  "requests (snd (dl_folder_from_github nested_remote 2 ''/plugins/x'' contents_d
                    (on_disk (usr_bin ''mkdir'' @ plugin_dir []))))
     = [''https://api.github.com/repos/o/r/contents/d/'',
        ''https://api.github.com/repos/o/r/contents/d//sub'']"
  by code_simp

text \<open>More generally, a URL of three or more characters always gets the slash.\<close>

lemma child_url_always_slash: "2 < length url \<Longrightarrow> child_url url name = url @ slash # name"
proof -
  assume "2 < length url"
  then have "length (butlast url) \<noteq> length [slash]" by simp
  then have "butlast url \<noteq> [slash]" by metis
  then show ?thesis by (simp add: child_url_def)
qed

subsection \<open>The candidate scan of \<open>get_main_file\<close>\<close>

text \<open>
  C2.  The claim: the scan leaves out exactly the plain files whose names end in
  \<^verbatim>\<open>.cpp\<close>, \<^verbatim>\<open>.c\<close> or \<^verbatim>\<open>.go\<close>.  The second alternative of the pattern has no anchor, so a
  file with \<^verbatim>\<open>.c\<close> anywhere in its name is left out too: in a directory holding
  \<^verbatim>\<open>rebalance.cli.py\<close> and \<^verbatim>\<open>README.md\<close> only \<^verbatim>\<open>README.md\<close> is scanned, and the main
  file \<^verbatim>\<open>rebalance.cli.py\<close> is not found.
\<close>

theorem scan_drops_dot_c_inside_name:
  "candidates offline (plugin_dir [''rebalance.cli.py'', ''README.md'']) ''/plugins/x''
       [''rebalance.cli.py'', ''README.md''] = [''README.md'']
   \<and> get_main_file offline [''rebalance''] ''/plugins/x''
         (on_disk (plugin_dir [''rebalance.cli.py'', ''README.md'']))
       = (Inr None, on_disk (plugin_dir [''rebalance.cli.py'', ''README.md'']))"
  by code_simp

lemma search_from_dot_c: "sublist ''.c'' s \<Longrightarrow> search_from source_file_re st s"
proof (induction s arbitrary: st)
  case Nil
  then show ?case by simp
next
  case (Cons c cs)
  from Cons.prems have "prefix ''.c'' (c # cs) \<or> sublist ''.c'' cs"
    by (simp add: sublist_Cons_right)
  then show ?case
  proof
    assume "prefix ''.c'' (c # cs)"
    then obtain r where "c # cs = ''.c'' @ r"
      by (auto simp: prefix_def)
    then have "match_here (lits ''.c'') st (c # cs)"
      by (simp add: lits_def)
    then show ?thesis
      by (simp add: source_file_re_def)
  next
    assume "sublist ''.c'' cs"
    then show ?thesis
      using Cons.IH by simp
  qed
qed

lemma sublist_os_path_join:
  assumes "sublist x a" and "b = [] \<or> hd b \<noteq> slash"
  shows "sublist x (os_path_join a b)"
proof -
  have "sublist x (a @ r)" for r
    using assms(1) by (metis sublist_appendI sublist_def append.assoc)
  with assms(2) show ?thesis
    by (auto simp: os_path_join_def)
qed

lemma children_names_ok:
  assumes "names_ok t" and "f \<in> set (children t q)"
  shows "f \<noteq> [] \<and> slash \<notin> set f"
proof -
  from assms(2) obtain k n where kn: "(k, n) \<in> set t" "k \<noteq> []" "f = last k"
    by (auto simp: children_def)
  with assms(1) have "list_all (\<lambda>c. c \<noteq> [] \<and> slash \<notin> set c) k"
    by (auto simp: names_ok_def list_all_iff)
  with kn show ?thesis
    by (auto simp: list_all_iff)
qed

lemma os_listdir_children:
  "os_listdir cwd t p = Inr content \<Longrightarrow> \<exists>q. content = children t q"
  by (auto simp: os_listdir_def split: sum.splits option.splits node.splits)

text \<open>
  C10.  When the string \<open>install_path\<close> itself contains \<^verbatim>\<open>.c\<close> and the directory has two
  or more children, every joined path contains \<^verbatim>\<open>.c\<close>, the pattern matches each of
  them, no file is scanned and the result is \<open>None\<close>, whatever the files and the
  candidate names are.  The listed names are file names (\<open>names_ok\<close>).
\<close>

theorem dot_c_in_install_path_finds_nothing:
  assumes "str_in ''.c'' install_path"
      and "os_listdir (workdir E) (files w) install_path = Inr content"
      and "2 \<le> length content"
      and "names_ok (files w)"
  shows "candidates E (files w) install_path content = []
       \<and> get_main_file E possible_filenames install_path w = (Inr None, w)"
proof -
  have excluded: "re_search source_file_re (os_path_join install_path f)"
    if "f \<in> set content" for f
  proof -
    from assms(2) that obtain q where "f \<in> set (children (files w) q)"
      using os_listdir_children by blast
    with assms(4) have "f \<noteq> [] \<and> slash \<notin> set f"
      by (rule children_names_ok)
    then have "hd f \<noteq> slash"
      by (cases f) auto
    with assms(1) have "sublist ''.c'' (os_path_join install_path f)"
      by (simp add: sublist_os_path_join)
    then show ?thesis
      by (simp add: re_search_def search_from_dot_c)
  qed
  then have none: "candidates E (files w) install_path content = []"
    by (simp add: candidates_def filter_empty_conv)
  from assms(3) have "length content \<noteq> 1"
    by simp
  with assms(2) none show ?thesis
    by (simp add: get_main_file_def)
qed

text \<open>Two Python files named after the candidate, in \<^verbatim>\<open>/home/u/.config/p\<close>.\<close>

definition dot_config_dir :: fs where
  "dot_config_dir =
     [([''home''], Dir), ([''home'', ''u''], Dir), ([''home'', ''u'', ''.config''], Dir),
      ([''home'', ''u'', ''.config'', ''p''], Dir),
      ([''home'', ''u'', ''.config'', ''p'', ''main.py''], File [] False),
      ([''home'', ''u'', ''.config'', ''p'', ''main_helper.py''], File [] False)]"

theorem dot_c_in_install_path_finds_nothing_witness:
  "get_main_file offline [''main''] ''/home/u/.config/p'' (on_disk dot_config_dir)
     = (Inr None, on_disk dot_config_dir)"
proof -
  have a: "str_in ''.c'' ''/home/u/.config/p''"
    by code_simp
  have b: "os_listdir (workdir offline) (files (on_disk dot_config_dir)) ''/home/u/.config/p''
             = Inr [''main.py'', ''main_helper.py'']"
    by code_simp
  have c: "names_ok (files (on_disk dot_config_dir))"
    by code_simp
  show ?thesis
    using dot_c_in_install_path_finds_nothing [OF a b _ c, of "[''main'']"] by simp
qed

subsection \<open>Which build \<open>handle_compilation\<close> starts\<close>

text \<open>
  C5.  The claim: without a \<^verbatim>\<open>Makefile\<close>, the Go build runs exactly when some file has
  the extension \<^verbatim>\<open>.go\<close>.  The test reads \<^verbatim>\<open>filename.split('.')[1]\<close>, the piece after the
  first dot, not the last one.  With a Go tool ready at \<^verbatim>\<open>/work/go\<close>: a directory holding
  only \<^verbatim>\<open>lightning.plugin.go\<close> starts nothing, and one holding only \<^verbatim>\<open>notes.go.txt\<close>
  starts the Go build.
\<close>

theorem go_build_reads_second_piece:
  "handle_compilation offline ''/plugins/x''
       (on_disk (go_in_workdir @ plugin_dir [''lightning.plugin.go'']))
     = (Inr (), on_disk (go_in_workdir @ plugin_dir [''lightning.plugin.go'']))
   \<and> spawned (snd (handle_compilation offline ''/plugins/x''
                      (on_disk (go_in_workdir @ plugin_dir [''notes.go.txt'']))))
     = [([''work'', ''go''], [''build''])]"
  by code_simp

text \<open>
  C6.  The claim: a Go tool reachable on the execution path is found and run.  The
  code runs \<^verbatim>\<open>os.path.abspath("go")\<close>, the file \<^verbatim>\<open>go\<close> of the working directory, and a
  path with a slash is not searched in \<^verbatim>\<open>PATH\<close>.  With \<^verbatim>\<open>/usr/bin/go\<close> installed,
  \<^verbatim>\<open>PATH=/usr/bin\<close> and the process in \<^verbatim>\<open>/work\<close>: the tool is found by name and
  \<^verbatim>\<open>["go", "build"]\<close> would succeed, but \<open>handle_compilation\<close> raises its "is golang
  installed ?" exception and starts nothing.
\<close>

theorem go_on_path_is_not_used:
  "locate offline (usr_bin ''go'' @ plugin_dir [''main.go'']) ''go'' = Inr [''usr'', ''bin'', ''go'']
   \<and> fst (check_output offline [''go'', ''build'']
             (on_disk (usr_bin ''go'' @ plugin_dir [''main.go'']))) = Inr ()
   \<and> handle_compilation offline ''/plugins/x'' (on_disk (usr_bin ''go'' @ plugin_dir [''main.go'']))
     = (Inl (Exception go_build_failed), on_disk (usr_bin ''go'' @ plugin_dir [''main.go'']))"
  by code_simp

subsection \<open>Hidden tree elements\<close>

lemma dl_element_hidden:
  "hidden element \<Longrightarrow> dl_element E install_path element w = (Inr (), w)"
  by (cases "elem_path element") (simp_all add: hidden_def dl_element_def py_index_def)

lemma dl_elements_visible:
  "dl_elements E install_path tree w
     = dl_elements E install_path (filter (\<lambda>e. \<not> hidden e) tree) w"
  by (induction tree arbitrary: w) (auto simp: dl_element_hidden split: prod.splits sum.splits)

text \<open>
  C8.  An element whose path begins with a dot is skipped before any request and any
  write: its turn of the loop leaves the files and the request log as they are, and a
  whole run of \<open>dl_github_repo\<close> is the run over the listing without these elements.
\<close>

theorem hidden_elements_are_skipped:
  assumes "http_json E (url @ ''?recursive=1'') = Inr (TreeDoc tree)"
  shows "dl_github_repo E install_path url w
           = dl_elements E install_path (filter (\<lambda>e. \<not> hidden e) tree)
               (w\<lparr>requests := requests w @ [url @ ''?recursive=1'']\<rparr>)
         \<and> (\<forall>element w'. hidden element \<longrightarrow>
               dl_element E install_path element w' = (Inr (), w'))"
  using assms dl_elements_visible [of E install_path tree]
  by (simp add: dl_github_repo_def urlopen_json_def dl_element_hidden)

theorem hidden_elements_are_skipped_witness:
  "dl_github_repo small_repo ''/plugins/x'' tree_url (on_disk (plugin_dir []))
     = (Inr (),
        \<lparr>files = plugin_dir [] @ [([''plugins'', ''x'', ''main.py''],
                                     File [104, 101, 108, 108, 111] True)],
         requests = [tree_url @ ''?recursive=1'', ''blob/2''],
         spawned = []\<rparr>)"
proof -
  have tree: "http_json small_repo (tree_url @ ''?recursive=1'')
      = Inr (TreeDoc [\<lparr>elem_path = ''.gitignore'', elem_mode = ''100644'', elem_url = ''blob/1''\<rparr>,
                      \<lparr>elem_path = ''main.py'', elem_mode = ''100755'', elem_url = ''blob/2''\<rparr>])"
    by (simp add: small_repo_def)
  have visible: "dl_elements small_repo ''/plugins/x''
        [\<lparr>elem_path = ''main.py'', elem_mode = ''100755'', elem_url = ''blob/2''\<rparr>]
        ((on_disk (plugin_dir []))\<lparr>requests := [tree_url @ ''?recursive=1'']\<rparr>)
      = (Inr (),
         \<lparr>files = plugin_dir [] @ [([''plugins'', ''x'', ''main.py''],
                                      File [104, 101, 108, 108, 111] True)],
          requests = [tree_url @ ''?recursive=1'', ''blob/2''],
          spawned = []\<rparr>)"
    by code_simp
  show ?thesis
    using hidden_elements_are_skipped [OF tree, of "''/plugins/x''" "on_disk (plugin_dir [])"]
      visible
    by (simp add: hidden_def on_disk_def)
qed

subsection \<open>An exact version and no \<open>__version__\<close>\<close>






subsection \<open>UTF-8: encoding undoes decoding\<close>








subsection \<open>Facts about the file system\<close>

declare os_makedirs.simps [simp del]

lemma lookup_update:
  "q \<noteq> [] \<Longrightarrow> lookup (AList.update q v t) p = (if p = q then Some v else lookup t p)"
  by (simp add: lookup_def update_conv')

lemma lookup_None_not_root: "lookup t q = None \<Longrightarrow> q \<noteq> []"
  by (auto simp: lookup_def)


lemma os_mkdir_kept:
  assumes "os_mkdir cwd t p = Inr t'" and "lookup t r \<noteq> None"
  shows "lookup t' r = lookup t r"
proof -
  from assms(1) obtain q where q: "lookup t q = None" "t' = AList.update q Dir t"
    by (auto simp: os_mkdir_def split: if_splits sum.splits option.splits)
  with assms(2) have "r \<noteq> q" by auto
  with q show ?thesis
    by (simp add: lookup_update lookup_None_not_root)
qed

lemma mkdir_exist_ok_kept:
  assumes "mkdir_exist_ok cwd name t = (e, t')" and "lookup t r \<noteq> None"
  shows "lookup t' r = lookup t r"
  using assms by (auto simp: mkdir_exist_ok_def os_mkdir_kept split: sum.splits if_splits)

lemma os_makedirs_kept:
  "os_makedirs cwd name t = (e, t') \<Longrightarrow> lookup t r \<noteq> None \<Longrightarrow> lookup t' r = lookup t r"
proof (induction cwd name t arbitrary: e t' rule: os_makedirs.induct)
  case (1 cwd name t)
  show ?case
  proof (cases "fst (makedirs_split name) \<noteq> [] \<and> snd (makedirs_split name) \<noteq> []
                 \<and> \<not> os_path_exists cwd t (fst (makedirs_split name))")
    case False
    with "1.prems" show ?thesis
      by (simp add: os_makedirs.simps [of cwd name t] mkdir_exist_ok_kept)
  next
    case True
    obtain e1 t1 where head: "os_makedirs cwd (fst (makedirs_split name)) t = (e1, t1)"
      by (cases "os_makedirs cwd (fst (makedirs_split name)) t")
    have kept1: "lookup t1 r = lookup t r"
      using "1.IH" [OF _ head "1.prems"(2)] True by simp
    from "1.prems"(1) True head
    have "t' = t1 \<or> mkdir_exist_ok cwd name t1 = (e, t')"
      by (auto simp: os_makedirs.simps [of cwd name t] split: option.splits if_splits)
    then show ?thesis
    proof
      assume "t' = t1"
      with kept1 show ?thesis by simp
    next
      assume "mkdir_exist_ok cwd name t1 = (e, t')"
      then have "lookup t' r = lookup t1 r"
        using "1.prems"(2) kept1 by (simp add: mkdir_exist_ok_kept)
      with kept1 show ?thesis by simp
    qed
  qed
qed



lemma walk_Cons_dir: "walk t cur (c # cs) = Inr q \<Longrightarrow> is_dir t cur"
  by (auto simp: is_dir_def split: option.splits node.splits)

lemma walk_clean:
  "walk t cur cs = Inr q \<Longrightarrow> list_all (\<lambda>c. c \<noteq> [] \<and> c \<noteq> ''.'' \<and> c \<noteq> ''..'') cs \<Longrightarrow> q = cur @ cs"
proof (induction cs arbitrary: cur)
  case Nil
  then show ?case by simp
next
  case (Cons c cs)
  from Cons.prems have "walk t (cur @ [c]) cs = Inr q"
    by (auto split: option.splits node.splits)
  with Cons.IH [of "cur @ [c]"] Cons.prems(2) show ?case by simp
qed

lemma split_chr_not_Nil: "split_chr c s \<noteq> []"
  by (induction s) (auto split: list.splits)


lemma join_split_chr: "join_str [c] (split_chr c s) = s"
proof (induction s)
  case Nil
  then show ?case by simp
next
  case (Cons x s)
  obtain p ps where ps: "split_chr c s = p # ps"
    using split_chr_not_Nil [of c s] by (cases "split_chr c s") auto
  show ?case
  proof (cases "x = c")
    case True
    with Cons ps show ?thesis by simp
  next
    case False
    with Cons ps show ?thesis by (cases ps) auto
  qed
qed

lemma split_chr_inj: "split_chr c a = split_chr c b \<Longrightarrow> a = b"
  by (metis join_split_chr)

subsection \<open>Files of the tree\<close>

text \<open>
  C1.  The claim: the file of an entry holds exactly the decoded bytes of its blob,
  whether they are text or binary.  \<open>write_file\<close> reads the decoded bytes as UTF-8 text
  before it writes them, so a payload that is not UTF-8 is never written.  The blob
  \<^verbatim>\<open>/w==\<close> is the single byte 255: the run raises \<open>UnicodeDecodeError\<close> and leaves
  \<^verbatim>\<open>a/b/c.py\<close> empty.
\<close>

theorem binary_blob_is_not_written:
  "b64decode ''/w=='' = Inr [255]
   \<and> dl_github_repo (one_file_repo ''/w=='') ''/plugins/x'' tree_url (on_disk (plugin_dir []))
     = (Inl UnicodeDecodeError,
        \<lparr>files = plugin_dir [] @ [([''plugins'', ''x'', ''a''], Dir),
                                    ([''plugins'', ''x'', ''a'', ''b''], Dir),
                                    ([''plugins'', ''x'', ''a'', ''b'', ''c.py''], File [] False)],
         requests = [tree_url @ ''?recursive=1'', ''blob/5''],
         spawned = []\<rparr>)"
  by code_simp

subsection \<open>Paths made of names\<close>

















subsection \<open>\<open>os.makedirs\<close> makes the whole chain\<close>





subsection \<open>One turn of the loop\<close>











subsection \<open>The whole loop\<close>








subsection \<open>Directories of the tree\<close>




end
